theory Spec2Isabelle
  imports Main
begin

unbundle bit_operations_syntax

section \<open>Data model\<close>

subsection \<open>Requests, URLs and response writers (net/http, net/url)\<close>

text \<open>
  An HTTP header is Go's \<open>map[string][]string\<close>; keys are the canonical MIME keys the
  server stores on an incoming request.
\<close>

type_synonym header = "string \<rightharpoonup> string list"

record userinfo =
  username :: string
  password :: string
  passwordSet :: bool

record url =
  Scheme :: string
  User :: "userinfo option"
  Host :: string
  Path :: string
  RawPath :: string
  RawQuery :: string

record request =
  Method :: string
  URL :: url
  ProtoMajor :: int
  Header :: header

text \<open>
  The response writer: the header map a handler edits, what was sent by the first
  \<open>WriteHeader\<close> (status and a snapshot of the header map; \<open>None\<close> while nothing was
  sent), and the body written so far.
\<close>

record responseWriter =
  handlerHeader :: header
  wrote :: "(int \<times> header) option"
  body :: string

definition newResponseWriter :: responseWriter where
  "newResponseWriter = \<lparr>handlerHeader = Map.empty, wrote = None, body = []\<rparr>"

definition Header_Get :: "header \<Rightarrow> string \<Rightarrow> string" where
  \<comment> \<open>\<open>Header.Get\<close> for a key already in canonical form: the first value, or the empty string.\<close>
  "Header_Get h key = (case h key of None \<Rightarrow> [] | Some [] \<Rightarrow> [] | Some (v # _) \<Rightarrow> v)"

definition Header_Set :: "responseWriter \<Rightarrow> string \<Rightarrow> string \<Rightarrow> responseWriter" where
  "Header_Set w key v = w\<lparr>handlerHeader := (handlerHeader w)(key \<mapsto> [v])\<rparr>"

definition Header_Del :: "responseWriter \<Rightarrow> string \<Rightarrow> responseWriter" where
  "Header_Del w key = w\<lparr>handlerHeader := (handlerHeader w)(key := None)\<rparr>"

definition WriteHeader :: "responseWriter \<Rightarrow> int \<Rightarrow> responseWriter" where
  \<comment> \<open>Only the first call sends a status; later calls are ignored.\<close>
  "WriteHeader w code =
     (case wrote w of None \<Rightarrow> w\<lparr>wrote := Some (code, handlerHeader w)\<rparr> | Some _ \<Rightarrow> w)"

definition Write :: "responseWriter \<Rightarrow> string \<Rightarrow> responseWriter" where
  \<comment> \<open>A write before any \<open>WriteHeader\<close> sends status 200 first.\<close>
  "Write w b = (let w' = WriteHeader w 200 in w'\<lparr>body := body w' @ b\<rparr>)"

definition StatusServiceUnavailable :: int where "StatusServiceUnavailable = 503"
definition StatusUnauthorized :: int where "StatusUnauthorized = 401"
definition StatusNotFound :: int where "StatusNotFound = 404"

definition http_Error :: "responseWriter \<Rightarrow> string \<Rightarrow> int \<Rightarrow> responseWriter" where
  \<comment> \<open>\<open>http.Error\<close>: plain-text headers, the status, the message and a newline.\<close>
  "http_Error w msg code =
     (let w1 = Header_Del w ''Content-Length'';
          w2 = Header_Set w1 ''Content-Type'' ''text/plain; charset=utf-8'';
          w3 = Header_Set w2 ''X-Content-Type-Options'' ''nosniff'';
          w4 = WriteHeader w3 code
      in Write w4 (msg @ [CHR 0x0A]))"

definition status :: "responseWriter \<Rightarrow> int option" where
  "status w = map_option fst (wrote w)"

definition sentHeader :: "responseWriter \<Rightarrow> string \<Rightarrow> string list option" where
  "sentHeader w key = (case wrote w of None \<Rightarrow> None | Some (_, h) \<Rightarrow> h key)"

definition Redacted :: "url \<Rightarrow> url" where
  \<comment> \<open>\<open>URL.Redacted\<close>: a copy whose password, when one is set, is replaced by \<open>xxxxx\<close>.
      The library then renders the copy with \<open>String\<close>; the log keeps the copy itself.\<close>
  "Redacted u =
     (case User u of
        None \<Rightarrow> u
      | Some ui \<Rightarrow>
          if passwordSet ui
          then u\<lparr>User := Some \<lparr>username = username ui, password = ''xxxxx'', passwordSet = True\<rparr>\<rparr>
          else u)"

subsection \<open>The server: health flags, configuration and the structured log\<close>

datatype level = LevelInfo | LevelError

datatype logval = LStr string | LUrl url

type_synonym log_entry = "level \<times> string \<times> (string \<times> logval) list"

record serverConfig =
  ExampleBasicAuthUser :: string
  ExampleBasicAuthPassword :: string
  ExampleReverseProxyURL :: string
  httpAddr :: string

record server =
  config :: serverConfig
  log :: "log_entry list"
  live :: bool
  ready :: bool
  shutdownRequested :: bool
  httpServerAvailable :: bool
  databaseAvailable :: bool

definition log_Info :: "server \<Rightarrow> string \<Rightarrow> (string \<times> logval) list \<Rightarrow> server" where
  "log_Info s msg args = s\<lparr>log := log s @ [(LevelInfo, msg, args)]\<rparr>"


text \<open>
  A handler serves one request: it gets the response writer, the request and the shared
  server state and returns the writer and the state as it leaves them.
\<close>

type_synonym handler = "responseWriter \<Rightarrow> request \<Rightarrow> server \<Rightarrow> responseWriter \<times> server"

section \<open>Middleware\<close>

definition upgradeHandler :: "handler \<Rightarrow> handler \<Rightarrow> handler" where
  "upgradeHandler base upgrade w r s =
     (if ProtoMajor r = 2 \<and> Header_Get (Header r) ''Content-Type'' = ''application/grpc''
      then upgrade w r s
      else base w r s)"

definition logger :: "handler \<Rightarrow> handler" where
  "logger handler w r s =
     handler w r
       (log_Info s ''request''
          [(''method'', LStr (Method r)), (''url'', LUrl (Redacted (URL r)))])"

definition onlyWhenReady :: "handler \<Rightarrow> handler" where
  "onlyWhenReady handler w r s =
     (if \<not> ready s
      then (http_Error w ''service not ready'' StatusServiceUnavailable,
            log_Info s ''service called when not ready''
              [(''method'', LStr (Method r)), (''url'', LUrl (Redacted (URL r)))])
      else handler w r s)"

subsection \<open>Basic authentication\<close>

text \<open>
  \<open>Request.BasicAuth\<close> reads the \<open>Authorization\<close> header; an absent header gives
  \<open>ok = false\<close>. Decoding a present header (\<open>parseBasicAuth\<close>: the \<open>Basic\<close> prefix,
  base64, the split at the first colon) is the library's and is a parameter here.
\<close>

type_synonym credentials = "string \<times> string \<times> bool"

definition BasicAuth :: "(string \<Rightarrow> credentials) \<Rightarrow> request \<Rightarrow> credentials" where
  "BasicAuth parseBasicAuth r =
     (let auth = Header_Get (Header r) ''Authorization''
      in if auth = [] then ([], [], False) else parseBasicAuth auth)"

text \<open>
  \<open>subtle.ConstantTimeCompare\<close>: 0 at once for different lengths, otherwise the XOR of
  every byte pair is OR-ed into one byte and the result is 1 exactly when that byte is 0.
\<close>

fun orXor :: "nat \<Rightarrow> string \<Rightarrow> string \<Rightarrow> nat" where
  "orXor v (a # x) (b # y) = orXor (v OR (of_char a XOR of_char b)) x y"
| "orXor v _ _ = v"

definition ConstantTimeCompare :: "string \<Rightarrow> string \<Rightarrow> int" where
  "ConstantTimeCompare x y =
     (if length x \<noteq> length y then 0 else if orXor 0 x y = 0 then 1 else 0)"

definition challenge :: string where
  \<comment> \<open>The challenge \<open>Basic realm=...\<close> with the realm \<open>Restricted\<close> in double quotes (byte 0x22).\<close>
  "challenge = ''Basic realm='' @ [CHR 0x22] @ ''Restricted'' @ [CHR 0x22]"

definition requireBasicAuth :: "(string \<Rightarrow> credentials) \<Rightarrow> handler \<Rightarrow> handler" where
  "requireBasicAuth parseBasicAuth handler w r s =
     (case BasicAuth parseBasicAuth r of
        (user, pass, ok) \<Rightarrow>
          if \<not> ok
             \<or> ConstantTimeCompare user (ExampleBasicAuthUser (config s)) \<noteq> 1
             \<or> ConstantTimeCompare pass (ExampleBasicAuthPassword (config s)) \<noteq> 1
          then
            (let s1 = log_Info s ''unauthorized request''
                        [(''method'', LStr (Method r)), (''url'', LUrl (Redacted (URL r))),
                         (''user'', LStr user)];
                 w1 = Header_Set w ''WWW-Authenticate'' challenge
             in (http_Error w1 ''Unauthorized'' StatusUnauthorized, s1))
          else
            handler w r
              (log_Info s ''authorized request''
                 [(''method'', LStr (Method r)), (''url'', LUrl (Redacted (URL r))),
                  (''user'', LStr user)]))"

subsection \<open>The reverse proxy\<close>




text \<open>
  The first check of \<open>url.Parse\<close>: the part of the input before any \<open>#\<close> must hold no
  ASCII control byte (below 0x20, or 0x7f).
\<close>

definition stringContainsCTLByte :: "string \<Rightarrow> bool" where
  "stringContainsCTLByte s = list_ex (\<lambda>c. (of_char c :: nat) < 0x20 \<or> (of_char c :: nat) = 0x7f) s"

definition url_Parse_CTL :: "string \<Rightarrow> string + url" where
  \<comment> \<open>\<open>url.Parse\<close> as far as its control-byte check. An input that passes the check goes on
      to the rest of the library's parser, which is not embedded: this function stands for it
      with a URL holding the input as its path, and nothing is derived from that branch.\<close>
  "url_Parse_CTL rawURL =
     (let u = takeWhile (\<lambda>c. c \<noteq> CHR ''#'') rawURL
      in if stringContainsCTLByte u
         then Inl ''net/url: invalid control character in URL''
         else Inr \<lparr>Scheme = [], User = None, Host = [], Path = u, RawPath = [], RawQuery = []\<rparr>)"

subsection \<open>Routing (http.ServeMux, http.StripPrefix, http.NotFound)\<close>

definition NotFound :: handler where
  "NotFound w r s = (http_Error w ''404 page not found'' StatusNotFound, s)"

definition TrimPrefix :: "string \<Rightarrow> string \<Rightarrow> string" where
  "TrimPrefix str pre = (if take (length pre) str = pre then drop (length pre) str else str)"

definition StripPrefix :: "string \<Rightarrow> handler \<Rightarrow> handler" where
  "StripPrefix pre h w r s =
     (if pre = [] then h w r s
      else
        (let p = TrimPrefix (Path (URL r)) pre;
             rp = TrimPrefix (RawPath (URL r)) pre
         in if length p < length (Path (URL r))
               \<and> (RawPath (URL r) = [] \<or> length rp < length (RawPath (URL r)))
            then h w (r\<lparr>URL := (URL r)\<lparr>Path := p, RawPath := rp\<rparr>\<rparr>) s
            else NotFound w r s))"

text \<open>
  The dispatch step of \<open>ServeMux\<close> on a path in canonical form: an exact pattern first,
  otherwise the longest registered pattern ending in a slash that is a prefix of the path,
  otherwise the not-found handler. (The redirects the mux sends for a path that is not in
  canonical form, or that lacks the trailing slash of a registered subtree, come before
  this step and are not part of it.)
\<close>

definition subtreeMatches :: "string \<Rightarrow> string \<times> 'h \<Rightarrow> bool" where
  "subtreeMatches path e =
     (fst e \<noteq> [] \<and> last (fst e) = CHR ''/'' \<and> take (length (fst e)) path = fst e)"

definition longer :: "string \<times> 'h \<Rightarrow> string \<times> 'h \<Rightarrow> string \<times> 'h" where
  "longer x b = (if length (fst b) < length (fst x) then x else b)"

definition ServeMux_match :: "(string \<times> 'h) list \<Rightarrow> string \<Rightarrow> 'h option" where
  "ServeMux_match m path =
     (case map_of m path of
        Some h \<Rightarrow> Some h
      | None \<Rightarrow>
          (case filter (subtreeMatches path) m of
             [] \<Rightarrow> None
           | e # es \<Rightarrow> Some (snd (fold longer es e))))"

definition ServeMux_handler :: "(string \<times> handler) list \<Rightarrow> handler" where
  "ServeMux_handler m w r s =
     (case ServeMux_match m (Path (URL r)) of
        None \<Rightarrow> NotFound w r s
      | Some h \<Rightarrow> h w r s)"

section \<open>Construction: \<open>New\<close>\<close>

text \<open>
  What \<open>New\<close> gets from outside this package: the gRPC server and the gateway mux as
  handlers, the file server, the metrics handler, the proxy for a target, the URL parser,
  the decoder of basic-auth headers, and the error (if any) of registering the gateway.
\<close>

record library =
  grpcServer :: handler
  grpcMux :: handler
  fileServer :: handler
  promHandler :: handler
  proxyTo :: "url \<Rightarrow> handler"
  Parse :: "string \<Rightarrow> string + url"
  parseBasicAuth :: "string \<Rightarrow> credentials"
  registerGateway :: "string option"

definition routes :: "library \<Rightarrow> handler \<Rightarrow> (string \<times> handler) list" where
  "routes lib proxy =
     [(''/'', requireBasicAuth (parseBasicAuth lib) NotFound),
      (''/favicon.ico'', fileServer lib),
      (''/static/'', StripPrefix ''/static/'' (fileServer lib)),
      (''/metrics'', promHandler lib),
      (''/api/'', StripPrefix ''/api'' (onlyWhenReady (logger (grpcMux lib)))),
      (''/examplereverseproxy/'', logger proxy)]"

definition topHandler :: "library \<Rightarrow> handler \<Rightarrow> handler" where
  \<comment> \<open>The handler of the HTTP server: the demultiplexer over the mux and the gRPC server.
      (\<open>h2c.NewHandler\<close> around it only speaks HTTP/2 in clear text and hands each request on.)\<close>
  "topHandler lib proxy = upgradeHandler (ServeMux_handler (routes lib proxy)) (grpcServer lib)"


section \<open>Lifecycle: \<open>ListenAndServe\<close> and the listener goroutine\<close>













section \<open>Sample inputs\<close>

definition sampleHandler :: "string \<Rightarrow> handler" where
  "sampleHandler tag w r s = (Write w tag, s)"

definition sampleProxyTo :: "url \<Rightarrow> handler" where
  "sampleProxyTo u = sampleHandler (''proxied to '' @ Host u)"

definition sampleParseBasicAuth :: "string \<Rightarrow> credentials" where
  \<comment> \<open>The library's decoding on two headers: base64 of \<open>user:pass\<close> and of \<open>user:wrong\<close>.\<close>
  "sampleParseBasicAuth auth =
     (if auth = ''Basic dXNlcjpwYXNz'' then (''user'', ''pass'', True)
      else if auth = ''Basic dXNlcjp3cm9uZw=='' then (''user'', ''wrong'', True)
      else ([], [], False))"

definition sampleConfig :: serverConfig where
  "sampleConfig =
     \<lparr>ExampleBasicAuthUser = ''user'', ExampleBasicAuthPassword = ''pass'',
      ExampleReverseProxyURL = ''http://localhost:9000'', httpAddr = ''localhost:8080''\<rparr>"

definition sampleLibrary :: library where
  "sampleLibrary =
     \<lparr>grpcServer = sampleHandler ''grpc'', grpcMux = sampleHandler ''gateway'',
      fileServer = sampleHandler ''file'', promHandler = sampleHandler ''metrics'',
      proxyTo = sampleProxyTo, Parse = url_Parse_CTL,
      parseBasicAuth = sampleParseBasicAuth, registerGateway = None\<rparr>"

definition sampleServer :: "bool \<Rightarrow> server" where
  "sampleServer rdy =
     \<lparr>config = sampleConfig, log = [], live = False, ready = rdy,
      shutdownRequested = False, httpServerAvailable = False, databaseAvailable = False\<rparr>"

definition sampleURL :: "string \<Rightarrow> url" where
  "sampleURL p = \<lparr>Scheme = [], User = None, Host = [], Path = p, RawPath = [], RawQuery = []\<rparr>"

definition sampleRequest :: "int \<Rightarrow> string \<Rightarrow> header \<Rightarrow> request" where
  "sampleRequest major p h = \<lparr>Method = ''GET'', URL = sampleURL p, ProtoMajor = major, Header = h\<rparr>"


section \<open>Facts about the library model\<close>

lemma status_http_Error:
  "wrote w = None \<Longrightarrow> status (http_Error w msg code) = Some code"
  by (simp add: http_Error_def status_def Write_def WriteHeader_def Header_Set_def Header_Del_def Let_def)

lemma body_http_Error:
  "wrote w = None \<Longrightarrow> body (http_Error w msg code) = body w @ msg @ [CHR 0x0A]"
  by (simp add: http_Error_def Write_def WriteHeader_def Header_Set_def Header_Del_def Let_def)

lemma sentHeader_http_Error:
  "wrote w = None \<Longrightarrow> key \<noteq> ''Content-Length'' \<Longrightarrow> key \<noteq> ''Content-Type'' \<Longrightarrow>
   key \<noteq> ''X-Content-Type-Options'' \<Longrightarrow>
   sentHeader (http_Error w msg code) key = handlerHeader w key"
  by (simp add: http_Error_def sentHeader_def Write_def WriteHeader_def Header_Set_def Header_Del_def Let_def)

section \<open>The protocol demultiplexer\<close>

lemma upgradeHandler_grpc:
  "ProtoMajor r = 2 \<and> Header_Get (Header r) ''Content-Type'' = ''application/grpc'' \<Longrightarrow>
   upgradeHandler base upgrade w r s = upgrade w r s"
  unfolding upgradeHandler_def by (rule if_P)

lemma upgradeHandler_http:
  "\<not> (ProtoMajor r = 2 \<and> Header_Get (Header r) ''Content-Type'' = ''application/grpc'') \<Longrightarrow>
   upgradeHandler base upgrade w r s = base w r s"
  unfolding upgradeHandler_def by (rule if_not_P)

lemma two_handlers:
  "\<exists>a b :: handler. a w r s \<noteq> b w r s"
proof -
  define x :: "responseWriter \<times> server" where "x = (w\<lparr>body := ''a''\<rparr>, s)"
  define y :: "responseWriter \<times> server" where "y = (w\<lparr>body := ''b''\<rparr>, s)"
  have "body (fst x) \<noteq> body (fst y)"
    by (simp add: x_def y_def)
  then have "x \<noteq> y" by metis
  then show ?thesis
    by (intro exI [of _ "\<lambda>_ _ _. x"] exI [of _ "\<lambda>_ _ _. y"]) simp
qed

text \<open>
  Claim C2. The demultiplexer hands a request to the gRPC server exactly when the request
  is HTTP/2 (\<open>ProtoMajor = 2\<close>) and its \<open>Content-Type\<close> is \<open>application/grpc\<close>, and to the
  HTTP handler chain exactly otherwise, whatever the two handlers are; in particular every
  request that is not HTTP/2, and every request with content type \<open>application/json\<close>,
  goes to the HTTP chain.
\<close>

theorem upgradeHandler_demux:
  "((\<forall>base upgrade. upgradeHandler base upgrade w r s = upgrade w r s) \<longleftrightarrow>
      (ProtoMajor r = 2 \<and> Header_Get (Header r) ''Content-Type'' = ''application/grpc''))
   \<and> ((\<forall>base upgrade. upgradeHandler base upgrade w r s = base w r s) \<longleftrightarrow>
      \<not> (ProtoMajor r = 2 \<and> Header_Get (Header r) ''Content-Type'' = ''application/grpc''))
   \<and> (ProtoMajor r \<noteq> 2 \<longrightarrow> upgradeHandler base upgrade w r s = base w r s)
   \<and> (Header_Get (Header r) ''Content-Type'' = ''application/json'' \<longrightarrow>
        upgradeHandler base upgrade w r s = base w r s)"
proof -
  let ?g = "ProtoMajor r = 2 \<and> Header_Get (Header r) ''Content-Type'' = ''application/grpc''"
  obtain a b :: handler where ne: "a w r s \<noteq> b w r s"
    using two_handlers by blast
  have 1: "(\<forall>base upgrade. upgradeHandler base upgrade w r s = upgrade w r s) \<longleftrightarrow> ?g"
  proof
    assume h: "\<forall>base upgrade. upgradeHandler base upgrade w r s = upgrade w r s"
    show ?g
    proof (rule ccontr)
      assume "\<not> ?g"
      then have "upgradeHandler a b w r s = a w r s"
        by (rule upgradeHandler_http)
      moreover from h have "upgradeHandler a b w r s = b w r s" by blast
      ultimately show False using ne by simp
    qed
  next
    assume ?g
    then show "\<forall>base upgrade. upgradeHandler base upgrade w r s = upgrade w r s"
      using upgradeHandler_grpc by blast
  qed
  have 2: "(\<forall>base upgrade. upgradeHandler base upgrade w r s = base w r s) \<longleftrightarrow> \<not> ?g"
  proof
    assume h: "\<forall>base upgrade. upgradeHandler base upgrade w r s = base w r s"
    show "\<not> ?g"
    proof
      assume ?g
      then have "upgradeHandler a b w r s = b w r s"
        by (rule upgradeHandler_grpc)
      moreover from h have "upgradeHandler a b w r s = a w r s" by blast
      ultimately show False using ne by simp
    qed
  next
    assume "\<not> ?g"
    then show "\<forall>base upgrade. upgradeHandler base upgrade w r s = base w r s"
      using upgradeHandler_http by blast
  qed
  have 3: "ProtoMajor r \<noteq> 2 \<longrightarrow> upgradeHandler base upgrade w r s = base w r s"
    by (simp add: upgradeHandler_def)
  have 4: "Header_Get (Header r) ''Content-Type'' = ''application/json'' \<longrightarrow>
        upgradeHandler base upgrade w r s = base w r s"
    by (simp add: upgradeHandler_def)
  from 1 2 3 4 show ?thesis by blast
qed

theorem upgradeHandler_demux_witness:
  "upgradeHandler (sampleHandler ''http'') (sampleHandler ''grpc'') newResponseWriter
     (sampleRequest 2 ''/API/ExampleGet'' [''Content-Type'' \<mapsto> [''application/grpc'']])
     (sampleServer True)
   = sampleHandler ''grpc'' newResponseWriter
     (sampleRequest 2 ''/API/ExampleGet'' [''Content-Type'' \<mapsto> [''application/grpc'']])
     (sampleServer True)
   \<and> upgradeHandler (sampleHandler ''http'') (sampleHandler ''grpc'') newResponseWriter
     (sampleRequest 2 ''/api/ExampleGet'' [''Content-Type'' \<mapsto> [''application/json'']])
     (sampleServer True)
   = sampleHandler ''http'' newResponseWriter
     (sampleRequest 2 ''/api/ExampleGet'' [''Content-Type'' \<mapsto> [''application/json'']])
     (sampleServer True)
   \<and> upgradeHandler (sampleHandler ''http'') (sampleHandler ''grpc'') newResponseWriter
     (sampleRequest 1 ''/api/ExampleGet'' [''Content-Type'' \<mapsto> [''application/grpc'']])
     (sampleServer True)
   = sampleHandler ''http'' newResponseWriter
     (sampleRequest 1 ''/api/ExampleGet'' [''Content-Type'' \<mapsto> [''application/grpc'']])
     (sampleServer True)"
  using upgradeHandler_demux [of newResponseWriter
      "sampleRequest 2 ''/API/ExampleGet'' [''Content-Type'' \<mapsto> [''application/grpc'']]"
      "sampleServer True" "sampleHandler ''http''" "sampleHandler ''grpc''"]
    upgradeHandler_demux [of newResponseWriter
      "sampleRequest 2 ''/api/ExampleGet'' [''Content-Type'' \<mapsto> [''application/json'']]"
      "sampleServer True" "sampleHandler ''http''" "sampleHandler ''grpc''"]
    upgradeHandler_demux [of newResponseWriter
      "sampleRequest 1 ''/api/ExampleGet'' [''Content-Type'' \<mapsto> [''application/grpc'']]"
      "sampleServer True" "sampleHandler ''http''" "sampleHandler ''grpc''"]
  by (simp add: sampleRequest_def Header_Get_def)

text \<open>
  Claim C10. The content type is compared by exact string equality: any value other than
  \<open>application/grpc\<close> sends the request to the HTTP chain, so an HTTP/2 request with
  \<open>application/grpc+proto\<close> or \<open>application/grpc+json\<close> does not reach the gRPC server.
\<close>

theorem upgradeHandler_exact_content_type:
  "(Header_Get (Header r) ''Content-Type'' \<noteq> ''application/grpc'' \<longrightarrow>
      upgradeHandler base upgrade w r s = base w r s)
   \<and> (ProtoMajor r = 2 \<and>
        (Header_Get (Header r) ''Content-Type'' = ''application/grpc+proto''
         \<or> Header_Get (Header r) ''Content-Type'' = ''application/grpc+json'') \<longrightarrow>
      upgradeHandler base upgrade w r s = base w r s)"
  by (auto simp add: upgradeHandler_def)

theorem upgradeHandler_exact_content_type_witness:
  "upgradeHandler (sampleHandler ''http'') (sampleHandler ''grpc'') newResponseWriter
     (sampleRequest 2 ''/API/ExampleGet'' [''Content-Type'' \<mapsto> [''application/grpc+proto'']])
     (sampleServer True)
   = sampleHandler ''http'' newResponseWriter
     (sampleRequest 2 ''/API/ExampleGet'' [''Content-Type'' \<mapsto> [''application/grpc+proto'']])
     (sampleServer True)"
  using upgradeHandler_exact_content_type [of
      "sampleRequest 2 ''/API/ExampleGet'' [''Content-Type'' \<mapsto> [''application/grpc+proto'']]"
      "sampleHandler ''http''" "sampleHandler ''grpc''" newResponseWriter "sampleServer True"]
  by (simp add: sampleRequest_def Header_Get_def)

section \<open>The request gates\<close>

lemma xor_nat_eq_0: "(a XOR b = (0::nat)) = (a = b)"
  by (metis xor.left_neutral xor.assoc xor_self_eq)

lemma orXor_eq_0:
  "length x = length y \<Longrightarrow> (orXor v x y = 0) = (v = 0 \<and> x = y)"
  by (induction v x y rule: orXor.induct) (auto simp: xor_nat_eq_0 or_eq_0_iff)

lemma ConstantTimeCompare_eq: "(ConstantTimeCompare x y = 1) = (x = y)"
  by (auto simp: ConstantTimeCompare_def orXor_eq_0)

lemma onlyWhenReady_not_ready:
  "\<not> ready s \<Longrightarrow>
   onlyWhenReady h w r s =
     (http_Error w ''service not ready'' StatusServiceUnavailable,
      log_Info s ''service called when not ready''
        [(''method'', LStr (Method r)), (''url'', LUrl (Redacted (URL r)))])"
  by (simp add: onlyWhenReady_def)

lemma onlyWhenReady_ready: "ready s \<Longrightarrow> onlyWhenReady h w r s = h w r s"
  by (simp add: onlyWhenReady_def)

text \<open>
  Claim C3. The readiness gate answers 503 and logs the rejection when \<open>ready\<close> is false,
  without calling the wrapped handler, and when \<open>ready\<close> is true it is the wrapped handler
  on the same writer, request and state. On a fresh response writer the gate answers 503
  whatever it wraps exactly when \<open>ready\<close> is false.
\<close>

theorem onlyWhenReady_gate:
  "(\<not> ready s \<longrightarrow>
      onlyWhenReady h w r s =
        (http_Error w ''service not ready'' StatusServiceUnavailable,
         log_Info s ''service called when not ready''
           [(''method'', LStr (Method r)), (''url'', LUrl (Redacted (URL r)))]))
   \<and> (ready s \<longrightarrow> onlyWhenReady h w r s = h w r s)
   \<and> (wrote w = None \<longrightarrow>
        ((\<forall>h'. status (fst (onlyWhenReady h' w r s)) = Some 503) \<longleftrightarrow> \<not> ready s))"
proof -
  have 3: "(\<forall>h'. status (fst (onlyWhenReady h' w r s)) = Some 503) \<longleftrightarrow> \<not> ready s"
    if fresh: "wrote w = None"
  proof
    assume a: "\<forall>h'. status (fst (onlyWhenReady h' w r s)) = Some 503"
    show "\<not> ready s"
    proof
      assume rd: "ready s"
      have "onlyWhenReady (\<lambda>w r s. (w, s)) w r s = (w, s)"
        using rd by (simp add: onlyWhenReady_def)
      then have "status (fst (onlyWhenReady (\<lambda>w r s. (w, s)) w r s)) = None"
        using fresh by (simp add: status_def)
      with a show False by simp
    qed
  next
    assume "\<not> ready s"
    then show "\<forall>h'. status (fst (onlyWhenReady h' w r s)) = Some 503"
      using fresh
      by (simp add: onlyWhenReady_not_ready status_http_Error StatusServiceUnavailable_def)
  qed
  show ?thesis
    using 3 onlyWhenReady_not_ready [of s h w r] onlyWhenReady_ready [of s h w r]
    by blast
qed

theorem onlyWhenReady_gate_witness:
  "status (fst (onlyWhenReady (sampleHandler ''gateway'') newResponseWriter
       (sampleRequest 1 ''/ExampleGet'' Map.empty) (sampleServer False))) = Some 503
   \<and> onlyWhenReady (sampleHandler ''gateway'') newResponseWriter
       (sampleRequest 1 ''/ExampleGet'' Map.empty) (sampleServer True)
     = sampleHandler ''gateway'' newResponseWriter
       (sampleRequest 1 ''/ExampleGet'' Map.empty) (sampleServer True)"
proof -
  have nr: "\<not> ready (sampleServer False)" and rd: "ready (sampleServer True)"
    by (simp_all add: sampleServer_def)
  have fresh: "wrote newResponseWriter = None"
    by (simp add: newResponseWriter_def)
  from onlyWhenReady_gate [of "sampleServer False" "sampleHandler ''gateway''" newResponseWriter
      "sampleRequest 1 ''/ExampleGet'' Map.empty"] nr fresh
  have 1: "status (fst (onlyWhenReady (sampleHandler ''gateway'') newResponseWriter
       (sampleRequest 1 ''/ExampleGet'' Map.empty) (sampleServer False))) = Some 503"
    by blast
  from onlyWhenReady_gate [of "sampleServer True" "sampleHandler ''gateway''" newResponseWriter
      "sampleRequest 1 ''/ExampleGet'' Map.empty"] rd
  have 2: "onlyWhenReady (sampleHandler ''gateway'') newResponseWriter
       (sampleRequest 1 ''/ExampleGet'' Map.empty) (sampleServer True)
     = sampleHandler ''gateway'' newResponseWriter
       (sampleRequest 1 ''/ExampleGet'' Map.empty) (sampleServer True)"
    by blast
  from 1 2 show ?thesis by (rule conjI)
qed

lemma requireBasicAuth_reject:
  assumes "BasicAuth p r = (user, pass, ok)"
    and "\<not> ok \<or> user \<noteq> ExampleBasicAuthUser (config s)
         \<or> pass \<noteq> ExampleBasicAuthPassword (config s)"
  shows "requireBasicAuth p h w r s =
     (http_Error (Header_Set w ''WWW-Authenticate'' challenge) ''Unauthorized'' StatusUnauthorized,
      log_Info s ''unauthorized request''
        [(''method'', LStr (Method r)), (''url'', LUrl (Redacted (URL r))),
         (''user'', LStr user)])"
  using assms by (auto simp add: requireBasicAuth_def ConstantTimeCompare_eq Let_def)

lemma requireBasicAuth_accept:
  assumes "BasicAuth p r = (user, pass, ok)"
    and "ok" and "user = ExampleBasicAuthUser (config s)"
    and "pass = ExampleBasicAuthPassword (config s)"
  shows "requireBasicAuth p h w r s =
     h w r (log_Info s ''authorized request''
        [(''method'', LStr (Method r)), (''url'', LUrl (Redacted (URL r))),
         (''user'', LStr user)])"
  using assms by (simp add: requireBasicAuth_def ConstantTimeCompare_eq)

lemma challenge_sent:
  "wrote w = None \<Longrightarrow>
   sentHeader (http_Error (Header_Set w ''WWW-Authenticate'' challenge) msg code)
     ''WWW-Authenticate'' = Some [challenge]"
  by (simp add: sentHeader_http_Error Header_Set_def)

lemma status_challenge:
  "wrote w = None \<Longrightarrow>
   status (http_Error (Header_Set w ''WWW-Authenticate'' challenge) msg code) = Some code"
  by (simp add: status_http_Error Header_Set_def)

lemma BasicAuth_missing:
  "Header_Get (Header r) ''Authorization'' = [] \<Longrightarrow> BasicAuth p r = ([], [], False)"
  by (simp add: BasicAuth_def)

text \<open>
  Claim C5. With \<open>(user, pass, ok)\<close> what \<open>BasicAuth\<close> reads from the request: if the
  credentials are absent or differ from the configured ones, the gate sets the
  \<open>WWW-Authenticate\<close> challenge, answers 401, logs the method, the redacted URL and the
  attempted user name (the password is not among the logged fields) and does not call the
  wrapped handler; if both match, the wrapped handler runs after the log entry, and the
  not-found handler of the root route then answers 404. A request without an
  \<open>Authorization\<close> header is a rejected one, with the empty user name.
\<close>

theorem requireBasicAuth_gate:
  assumes ba: "BasicAuth p r = (user, pass, ok)"
  shows
  "(\<not> ok \<or> user \<noteq> ExampleBasicAuthUser (config s)
      \<or> pass \<noteq> ExampleBasicAuthPassword (config s) \<longrightarrow>
      requireBasicAuth p h w r s =
        (http_Error (Header_Set w ''WWW-Authenticate'' challenge) ''Unauthorized''
           StatusUnauthorized,
         log_Info s ''unauthorized request''
           [(''method'', LStr (Method r)), (''url'', LUrl (Redacted (URL r))),
            (''user'', LStr user)])
      \<and> (wrote w = None \<longrightarrow>
           status (fst (requireBasicAuth p h w r s)) = Some 401
           \<and> sentHeader (fst (requireBasicAuth p h w r s)) ''WWW-Authenticate''
               = Some [challenge]))
   \<and> (ok \<and> user = ExampleBasicAuthUser (config s)
       \<and> pass = ExampleBasicAuthPassword (config s) \<longrightarrow>
      requireBasicAuth p h w r s =
        h w r (log_Info s ''authorized request''
           [(''method'', LStr (Method r)), (''url'', LUrl (Redacted (URL r))),
            (''user'', LStr user)])
      \<and> (wrote w = None \<longrightarrow>
           status (fst (requireBasicAuth p NotFound w r s)) = Some 404))
   \<and> (Header_Get (Header r) ''Authorization'' = [] \<longrightarrow> \<not> ok \<and> user = [])"
proof (intro conjI impI)
  assume rej: "\<not> ok \<or> user \<noteq> ExampleBasicAuthUser (config s)
      \<or> pass \<noteq> ExampleBasicAuthPassword (config s)"
  show e: "requireBasicAuth p h w r s =
        (http_Error (Header_Set w ''WWW-Authenticate'' challenge) ''Unauthorized''
           StatusUnauthorized,
         log_Info s ''unauthorized request''
           [(''method'', LStr (Method r)), (''url'', LUrl (Redacted (URL r))),
            (''user'', LStr user)])"
    by (rule requireBasicAuth_reject [OF ba rej])
  assume fresh: "wrote w = None"
  show "status (fst (requireBasicAuth p h w r s)) = Some 401"
    by (simp add: e status_challenge [OF fresh] StatusUnauthorized_def)
  show "sentHeader (fst (requireBasicAuth p h w r s)) ''WWW-Authenticate'' = Some [challenge]"
    by (simp add: e challenge_sent [OF fresh])
next
  assume acc: "ok \<and> user = ExampleBasicAuthUser (config s)
       \<and> pass = ExampleBasicAuthPassword (config s)"
  show "requireBasicAuth p h w r s =
        h w r (log_Info s ''authorized request''
           [(''method'', LStr (Method r)), (''url'', LUrl (Redacted (URL r))),
            (''user'', LStr user)])"
    using acc by (intro requireBasicAuth_accept [OF ba]) simp_all
  assume fresh: "wrote w = None"
  have "requireBasicAuth p NotFound w r s =
        NotFound w r (log_Info s ''authorized request''
           [(''method'', LStr (Method r)), (''url'', LUrl (Redacted (URL r))),
            (''user'', LStr user)])"
    using acc by (intro requireBasicAuth_accept [OF ba]) simp_all
  then show "status (fst (requireBasicAuth p NotFound w r s)) = Some 404"
    by (simp add: NotFound_def status_http_Error [OF fresh] StatusNotFound_def)
next
  assume "Header_Get (Header r) ''Authorization'' = []"
  then show "\<not> ok" using ba by (simp add: BasicAuth_missing)
next
  assume "Header_Get (Header r) ''Authorization'' = []"
  then show "user = []" using ba by (simp add: BasicAuth_missing)
qed


section \<open>Routing\<close>

lemma match_api:
  "ServeMux_match (routes lib proxy) (''/api/'' @ rest)
     = Some (StripPrefix ''/api'' (onlyWhenReady (logger (grpcMux lib))))"
  by (simp add: ServeMux_match_def routes_def subtreeMatches_def longer_def)


lemma match_probe_root:
  assumes "p = ''/probe/startup'' \<or> p = ''/probe/live'' \<or> p = ''/probe/ready''"
  shows "ServeMux_match (routes lib proxy) p
           = Some (requireBasicAuth (parseBasicAuth lib) NotFound)"
  using assms
  by (elim disjE) (simp_all add: ServeMux_match_def routes_def subtreeMatches_def longer_def)

lemma StripPrefix_api:
  "Path (URL r) = ''/api/'' @ rest \<Longrightarrow> RawPath (URL r) = [] \<Longrightarrow>
   StripPrefix ''/api'' h w r s
     = h w (r\<lparr>URL := (URL r)\<lparr>Path := ''/'' @ rest, RawPath := []\<rparr>\<rparr>) s"
  by (simp add: StripPrefix_def TrimPrefix_def Let_def)

lemma mux_api:
  assumes "Path (URL r) = ''/api/'' @ rest" and "RawPath (URL r) = []"
  shows "ServeMux_handler (routes lib proxy) w r s
     = onlyWhenReady (logger (grpcMux lib)) w
         (r\<lparr>URL := (URL r)\<lparr>Path := ''/'' @ rest, RawPath := []\<rparr>\<rparr>) s"
  using assms StripPrefix_api [OF assms]
  by (simp add: ServeMux_handler_def match_api del: append.simps)


lemma mux_probe_root:
  assumes "Path (URL r) = ''/probe/startup'' \<or> Path (URL r) = ''/probe/live''
           \<or> Path (URL r) = ''/probe/ready''"
  shows "ServeMux_handler (routes lib proxy) w r s
           = requireBasicAuth (parseBasicAuth lib) NotFound w r s"
  by (simp add: ServeMux_handler_def match_probe_root [OF assms])

theorem requireBasicAuth_gate_witness:
  "status (fst (requireBasicAuth sampleParseBasicAuth NotFound newResponseWriter
       (sampleRequest 1 ''/'' Map.empty) (sampleServer True))) = Some 401
   \<and> sentHeader (fst (requireBasicAuth sampleParseBasicAuth NotFound newResponseWriter
       (sampleRequest 1 ''/'' Map.empty) (sampleServer True))) ''WWW-Authenticate''
       = Some [challenge]
   \<and> status (fst (requireBasicAuth sampleParseBasicAuth NotFound newResponseWriter
       (sampleRequest 1 ''/'' [''Authorization'' \<mapsto> [''Basic dXNlcjp3cm9uZw=='']])
       (sampleServer True))) = Some 401
   \<and> status (fst (requireBasicAuth sampleParseBasicAuth NotFound newResponseWriter
       (sampleRequest 1 ''/'' [''Authorization'' \<mapsto> [''Basic dXNlcjpwYXNz'']])
       (sampleServer True))) = Some 404"
proof -
  have fresh: "wrote newResponseWriter = None"
    by (simp add: newResponseWriter_def)
  have cfg: "ExampleBasicAuthUser (config (sampleServer True)) = ''user''"
    "ExampleBasicAuthPassword (config (sampleServer True)) = ''pass''"
    by (simp_all add: sampleServer_def sampleConfig_def)
  have b1: "BasicAuth sampleParseBasicAuth (sampleRequest 1 ''/'' Map.empty) = ([], [], False)"
    by (simp add: BasicAuth_def sampleRequest_def Header_Get_def)
  have b2: "BasicAuth sampleParseBasicAuth
      (sampleRequest 1 ''/'' [''Authorization'' \<mapsto> [''Basic dXNlcjp3cm9uZw=='']])
      = (''user'', ''wrong'', True)"
    by (simp add: BasicAuth_def sampleRequest_def Header_Get_def sampleParseBasicAuth_def)
  have b3: "BasicAuth sampleParseBasicAuth
      (sampleRequest 1 ''/'' [''Authorization'' \<mapsto> [''Basic dXNlcjpwYXNz'']])
      = (''user'', ''pass'', True)"
    by (simp add: BasicAuth_def sampleRequest_def Header_Get_def sampleParseBasicAuth_def)
  have rej1: "\<not> False \<or> [] \<noteq> ExampleBasicAuthUser (config (sampleServer True))
      \<or> [] \<noteq> ExampleBasicAuthPassword (config (sampleServer True))"
    by simp
  have rej2: "\<not> True \<or> ''user'' \<noteq> ExampleBasicAuthUser (config (sampleServer True))
      \<or> ''wrong'' \<noteq> ExampleBasicAuthPassword (config (sampleServer True))"
    by (simp add: cfg)
  have acc: "True \<and> ''user'' = ExampleBasicAuthUser (config (sampleServer True))
      \<and> ''pass'' = ExampleBasicAuthPassword (config (sampleServer True))"
    by (simp add: cfg)
  from requireBasicAuth_gate [OF b1, of "sampleServer True" NotFound newResponseWriter]
    fresh rej1
  have 1: "status (fst (requireBasicAuth sampleParseBasicAuth NotFound newResponseWriter
       (sampleRequest 1 ''/'' Map.empty) (sampleServer True))) = Some 401"
    and 2: "sentHeader (fst (requireBasicAuth sampleParseBasicAuth NotFound newResponseWriter
       (sampleRequest 1 ''/'' Map.empty) (sampleServer True))) ''WWW-Authenticate''
       = Some [challenge]"
    by blast+
  from requireBasicAuth_gate [OF b2, of "sampleServer True" NotFound newResponseWriter]
    fresh rej2
  have 3: "status (fst (requireBasicAuth sampleParseBasicAuth NotFound newResponseWriter
       (sampleRequest 1 ''/'' [''Authorization'' \<mapsto> [''Basic dXNlcjp3cm9uZw=='']])
       (sampleServer True))) = Some 401"
    by blast
  from requireBasicAuth_gate [OF b3, of "sampleServer True" NotFound newResponseWriter]
    fresh acc
  have 4: "status (fst (requireBasicAuth sampleParseBasicAuth NotFound newResponseWriter
       (sampleRequest 1 ''/'' [''Authorization'' \<mapsto> [''Basic dXNlcjpwYXNz'']])
       (sampleServer True))) = Some 404"
    by blast
  from 1 2 3 4 show ?thesis by blast
qed

lemma topHandler_http:
  "\<not> (ProtoMajor r = 2 \<and> Header_Get (Header r) ''Content-Type'' = ''application/grpc'') \<Longrightarrow>
   topHandler lib proxy w r s = ServeMux_handler (routes lib proxy) w r s"
  by (simp add: topHandler_def upgradeHandler_http)

lemma topHandler_grpc:
  "ProtoMajor r = 2 \<and> Header_Get (Header r) ''Content-Type'' = ''application/grpc'' \<Longrightarrow>
   topHandler lib proxy w r s = grpcServer lib w r s"
  by (simp add: topHandler_def upgradeHandler_grpc)

lemma logger_eq:
  "logger h w r s =
     h w r (log_Info s ''request''
        [(''method'', LStr (Method r)), (''url'', LUrl (Redacted (URL r)))])"
  by (simp add: logger_def)

lemma sample_not_grpc:
  "\<not> (ProtoMajor (sampleRequest 1 p h) = 2
      \<and> Header_Get (Header (sampleRequest 1 p h)) ''Content-Type'' = ''application/grpc'')"
  by (simp add: sampleRequest_def)

lemma sample_api_path:
  "Path (URL (sampleRequest m (''/api/'' @ rest) h)) = ''/api/'' @ rest"
  "RawPath (URL (sampleRequest m p h)) = []"
  by (simp_all add: sampleRequest_def sampleURL_def)

lemma sample_stripped:
  "(sampleRequest m p h)\<lparr>URL := (URL (sampleRequest m p h))\<lparr>Path := q, RawPath := []\<rparr>\<rparr>
     = sampleRequest m q h"
  by (simp add: sampleRequest_def sampleURL_def)

lemma sample_top_api:
  "topHandler sampleLibrary proxy w (sampleRequest 1 (''/api/'' @ rest) h) s
     = onlyWhenReady (logger (sampleHandler ''gateway'')) w (sampleRequest 1 (''/'' @ rest) h) s"
  using mux_api [OF sample_api_path, of sampleLibrary proxy w 1 rest h s]
  by (simp add: topHandler_http [OF sample_not_grpc] sample_stripped sampleLibrary_def
        del: append.simps)


lemma sample_top_probe_root:
  "topHandler sampleLibrary proxy w (sampleRequest 1 ''/probe/ready'' h) s
     = requireBasicAuth sampleParseBasicAuth NotFound w (sampleRequest 1 ''/probe/ready'' h) s"
proof -
  have "Path (URL (sampleRequest 1 ''/probe/ready'' h)) = ''/probe/startup''
      \<or> Path (URL (sampleRequest 1 ''/probe/ready'' h)) = ''/probe/live''
      \<or> Path (URL (sampleRequest 1 ''/probe/ready'' h)) = ''/probe/ready''"
    by (simp add: sampleRequest_def sampleURL_def)
  from mux_probe_root [OF this, of sampleLibrary proxy w s] show ?thesis
    by (simp add: topHandler_http [OF sample_not_grpc] sampleLibrary_def)
qed

lemma sample_unauthenticated:
  "status (fst (requireBasicAuth sampleParseBasicAuth NotFound newResponseWriter
       (sampleRequest 1 p Map.empty) s)) = Some 401"
proof -
  have b: "BasicAuth sampleParseBasicAuth (sampleRequest 1 p Map.empty) = ([], [], False)"
    by (simp add: BasicAuth_def sampleRequest_def Header_Get_def)
  have r: "\<not> False \<or> [] \<noteq> ExampleBasicAuthUser (config s)
      \<or> [] \<noteq> ExampleBasicAuthPassword (config s)"
    by simp
  have fresh: "wrote newResponseWriter = None"
    by (simp add: newResponseWriter_def)
  show ?thesis
    unfolding requireBasicAuth_reject [OF b r]
    by (simp add: status_challenge [OF fresh] StatusUnauthorized_def)
qed

text \<open>
  Claim C1, as stated, fails: the probe routes are routes of the gateway, which is mounted
  under \<open>/api/\<close> behind the readiness gate. A request for \<open>/api/probe/ready\<close> while
  \<open>ready\<close> is false is answered 503 by the gate, and the same request is answered by the
  gateway once \<open>ready\<close> is true: the answer depends on the \<open>ready\<close> flag. A request
  for \<open>/probe/ready\<close> without the prefix and without credentials is answered 401.
\<close>

theorem probe_behind_readiness_gate_counterexample:
  "status (fst (topHandler sampleLibrary (sampleHandler ''proxy'') newResponseWriter
        (sampleRequest 1 ''/api/probe/ready'' Map.empty) (sampleServer False))) = Some 503
   \<and> body (fst (topHandler sampleLibrary (sampleHandler ''proxy'') newResponseWriter
        (sampleRequest 1 ''/api/probe/ready'' Map.empty) (sampleServer False)))
       = ''service not ready'' @ [CHR 0x0A]
   \<and> body (fst (topHandler sampleLibrary (sampleHandler ''proxy'') newResponseWriter
        (sampleRequest 1 ''/api/probe/ready'' Map.empty) (sampleServer True)))
       = ''gateway''
   \<and> status (fst (topHandler sampleLibrary (sampleHandler ''proxy'') newResponseWriter
        (sampleRequest 1 ''/probe/ready'' Map.empty) (sampleServer True))) = Some 401"
  using sample_top_api [of "sampleHandler ''proxy''" newResponseWriter "''probe/ready''"
      Map.empty "sampleServer False"]
    sample_top_api [of "sampleHandler ''proxy''" newResponseWriter "''probe/ready''"
      Map.empty "sampleServer True"]
  by (simp add: onlyWhenReady_def logger_def sampleServer_def status_http_Error
        body_http_Error newResponseWriter_def StatusServiceUnavailable_def
        sampleHandler_def Write_def WriteHeader_def Let_def
        sample_top_probe_root sample_unauthenticated [unfolded newResponseWriter_def sampleServer_def])



text \<open>
  Claim C1, amended. For a probe path \<open>p\<close>, an HTTP request for \<open>/api\<close> followed by \<open>p\<close>
  needs no credentials and passes the readiness gate: it is answered 503 while \<open>ready\<close> is
  false and is logged and handed to the gateway, with the path \<open>p\<close>, when \<open>ready\<close> is
  true. An HTTP request for \<open>p\<close> itself falls to the root route behind basic
  authentication. A gRPC request goes to the gRPC server past every gate.
\<close>

theorem probe_routes:
  assumes p: "p = ''/probe/startup'' \<or> p = ''/probe/live'' \<or> p = ''/probe/ready''"
  shows
  "(\<not> (ProtoMajor r = 2 \<and> Header_Get (Header r) ''Content-Type'' = ''application/grpc'')
      \<and> Path (URL r) = ''/api'' @ p \<and> RawPath (URL r) = [] \<longrightarrow>
      topHandler lib proxy w r s =
        (if ready s
         then grpcMux lib w (r\<lparr>URL := (URL r)\<lparr>Path := p, RawPath := []\<rparr>\<rparr>)
                (log_Info s ''request''
                   [(''method'', LStr (Method r)),
                    (''url'', LUrl (Redacted ((URL r)\<lparr>Path := p, RawPath := []\<rparr>)))])
         else (http_Error w ''service not ready'' StatusServiceUnavailable,
               log_Info s ''service called when not ready''
                 [(''method'', LStr (Method r)),
                  (''url'', LUrl (Redacted ((URL r)\<lparr>Path := p, RawPath := []\<rparr>)))])))
   \<and> (\<not> (ProtoMajor r = 2 \<and> Header_Get (Header r) ''Content-Type'' = ''application/grpc'')
      \<and> Path (URL r) = p \<longrightarrow>
      topHandler lib proxy w r s = requireBasicAuth (parseBasicAuth lib) NotFound w r s)
   \<and> (ProtoMajor r = 2 \<and> Header_Get (Header r) ''Content-Type'' = ''application/grpc'' \<longrightarrow>
      topHandler lib proxy w r s = grpcServer lib w r s)"
proof (intro conjI impI)
  assume a: "\<not> (ProtoMajor r = 2 \<and> Header_Get (Header r) ''Content-Type'' = ''application/grpc'')
      \<and> Path (URL r) = ''/api'' @ p \<and> RawPath (URL r) = []"
  then have ng: "\<not> (ProtoMajor r = 2 \<and> Header_Get (Header r) ''Content-Type'' = ''application/grpc'')"
    and pa: "Path (URL r) = ''/api'' @ p" and rp: "RawPath (URL r) = []"
    by blast+
  obtain rest where rest: "p = ''/'' @ rest"
    using p by auto
  have pa': "Path (URL r) = ''/api/'' @ rest"
    using pa rest by simp
  have "ServeMux_handler (routes lib proxy) w r s =
        (if ready s
         then grpcMux lib w (r\<lparr>URL := (URL r)\<lparr>Path := ''/'' @ rest, RawPath := []\<rparr>\<rparr>)
                (log_Info s ''request''
                   [(''method'', LStr (Method r)),
                    (''url'', LUrl (Redacted ((URL r)\<lparr>Path := ''/'' @ rest, RawPath := []\<rparr>)))])
         else (http_Error w ''service not ready'' StatusServiceUnavailable,
               log_Info s ''service called when not ready''
                 [(''method'', LStr (Method r)),
                  (''url'', LUrl (Redacted ((URL r)\<lparr>Path := ''/'' @ rest, RawPath := []\<rparr>)))]))"
    unfolding mux_api [OF pa' rp]
    by (simp add: onlyWhenReady_def logger_eq)
  then show "topHandler lib proxy w r s =
        (if ready s
         then grpcMux lib w (r\<lparr>URL := (URL r)\<lparr>Path := p, RawPath := []\<rparr>\<rparr>)
                (log_Info s ''request''
                   [(''method'', LStr (Method r)),
                    (''url'', LUrl (Redacted ((URL r)\<lparr>Path := p, RawPath := []\<rparr>)))])
         else (http_Error w ''service not ready'' StatusServiceUnavailable,
               log_Info s ''service called when not ready''
                 [(''method'', LStr (Method r)),
                  (''url'', LUrl (Redacted ((URL r)\<lparr>Path := p, RawPath := []\<rparr>)))]))"
    unfolding topHandler_http [OF ng] rest .
next
  assume a: "\<not> (ProtoMajor r = 2 \<and> Header_Get (Header r) ''Content-Type'' = ''application/grpc'')
      \<and> Path (URL r) = p"
  then have ng: "\<not> (ProtoMajor r = 2 \<and> Header_Get (Header r) ''Content-Type'' = ''application/grpc'')"
    and pa: "Path (URL r) = p"
    by blast+
  have "Path (URL r) = ''/probe/startup'' \<or> Path (URL r) = ''/probe/live''
           \<or> Path (URL r) = ''/probe/ready''"
    using p pa by simp
  then show "topHandler lib proxy w r s = requireBasicAuth (parseBasicAuth lib) NotFound w r s"
    unfolding topHandler_http [OF ng] by (rule mux_probe_root)
next
  assume "ProtoMajor r = 2 \<and> Header_Get (Header r) ''Content-Type'' = ''application/grpc''"
  then show "topHandler lib proxy w r s = grpcServer lib w r s"
    by (rule topHandler_grpc)
qed

theorem probe_routes_witness:
  "topHandler sampleLibrary (sampleHandler ''proxy'') newResponseWriter
     (sampleRequest 1 ''/api/probe/ready'' Map.empty) (sampleServer False)
   = (http_Error newResponseWriter ''service not ready'' StatusServiceUnavailable,
      log_Info (sampleServer False) ''service called when not ready''
        [(''method'', LStr ''GET''), (''url'', LUrl (sampleURL ''/probe/ready''))])
   \<and> topHandler sampleLibrary (sampleHandler ''proxy'') newResponseWriter
     (sampleRequest 1 ''/probe/ready'' Map.empty) (sampleServer True)
   = requireBasicAuth sampleParseBasicAuth NotFound newResponseWriter
     (sampleRequest 1 ''/probe/ready'' Map.empty) (sampleServer True)
   \<and> topHandler sampleLibrary (sampleHandler ''proxy'') newResponseWriter
     (sampleRequest 2 ''/API/ReadinessProbe'' [''Content-Type'' \<mapsto> [''application/grpc'']])
     (sampleServer False)
   = sampleHandler ''grpc'' newResponseWriter
     (sampleRequest 2 ''/API/ReadinessProbe'' [''Content-Type'' \<mapsto> [''application/grpc'']])
     (sampleServer False)"
proof -
  have p: "''/probe/ready'' = ''/probe/startup'' \<or> ''/probe/ready'' = ''/probe/live''
      \<or> ''/probe/ready'' = ''/probe/ready''"
    by simp
  show ?thesis
    using probe_routes [OF p, of "sampleRequest 1 ''/api/probe/ready'' Map.empty"
        sampleLibrary "sampleHandler ''proxy''" newResponseWriter "sampleServer False"]
      probe_routes [OF p, of "sampleRequest 1 ''/probe/ready'' Map.empty"
        sampleLibrary "sampleHandler ''proxy''" newResponseWriter "sampleServer True"]
      probe_routes [OF p, of
        "sampleRequest 2 ''/API/ReadinessProbe'' [''Content-Type'' \<mapsto> [''application/grpc'']]"
        sampleLibrary "sampleHandler ''proxy''" newResponseWriter "sampleServer False"]
    by (simp add: sampleRequest_def sampleURL_def sampleServer_def sampleLibrary_def
          Redacted_def Header_Get_def)
qed

section \<open>The reverse proxy route\<close>







section \<open>The lifecycle\<close>






















end
